theory Spec2Isabelle
  imports Main "HOL-Library.AList"
begin

section \<open>JSON values and the Python operations the controllers apply to them\<close>

text \<open>
  \<^verbatim>\<open>json.load\<close> yields \<^verbatim>\<open>None\<close>, booleans, numbers, strings, lists and
  dictionaries with string keys. A dictionary is an association list in insertion order
  (the order \<^verbatim>\<open>json.dump\<close> writes); the dictionaries Python builds have pairwise
  distinct keys. Numbers are restricted to integers: the identifiers of the data model
  are integers, and floating point is left out of the model.
\<close>

datatype json =
    JNull
  | JBool bool
  | JNum int
  | JStr string
  | JArr "json list"
  | JObj "(string \<times> json) list"

text \<open>
  The exceptions the controllers can raise: on a value of the wrong shape, and while
  reading the file. In Python \<^verbatim>\<open>JSONDecodeError\<close> and \<^verbatim>\<open>UnicodeDecodeError\<close> are
  subclasses of \<^verbatim>\<open>ValueError\<close>; an \<^verbatim>\<open>except json.JSONDecodeError\<close> catches the first
  of the three only, so they are three values here.
\<close>

datatype error =
    KeyError
  | TypeError
  | AttributeError
  | IndexError
  | ValueError
  | JSONDecodeError
  | UnicodeDecodeError
  | RecursionError

text \<open>Truth value of an object, as \<^verbatim>\<open>not x\<close> and \<^verbatim>\<open>any\<close> test it.\<close>

fun truthy :: "json \<Rightarrow> bool" where
  "truthy JNull = False"
| "truthy (JBool b) = b"
| "truthy (JNum n) = (n \<noteq> 0)"
| "truthy (JStr s) = (s \<noteq> [])"
| "truthy (JArr xs) = (xs \<noteq> [])"
| "truthy (JObj kvs) = (kvs \<noteq> [])"

text \<open>
  Python's \<^verbatim>\<open>==\<close>: a boolean is the integer 0 or 1; lists are equal elementwise;
  dictionaries are equal when they have the same number of keys and every key of the
  first is a key of the second with an equal value, whatever the order; values of
  different kinds are unequal.
\<close>

fun py_eq :: "json \<Rightarrow> json \<Rightarrow> bool" where
  "py_eq JNull y = (y = JNull)"
| "py_eq (JBool a) y =
     (case y of JBool b \<Rightarrow> a = b | JNum n \<Rightarrow> n = (if a then 1 else 0) | _ \<Rightarrow> False)"
| "py_eq (JNum m) y =
     (case y of JBool b \<Rightarrow> m = (if b then 1 else 0) | JNum n \<Rightarrow> m = n | _ \<Rightarrow> False)"
| "py_eq (JStr s) y = (y = JStr s)"
| "py_eq (JArr xs) y = (case y of JArr ys \<Rightarrow> list_all2 py_eq xs ys | _ \<Rightarrow> False)"
| "py_eq (JObj a) y =
     (case y of
        JObj b \<Rightarrow>
          length a = length b \<and>
          (\<forall>(k, v) \<in> set a. case map_of b k of None \<Rightarrow> False | Some w \<Rightarrow> py_eq v w)
      | _ \<Rightarrow> False)"

text \<open>\<^verbatim>\<open>x[k]\<close> with a string key.\<close>

fun getitem :: "json \<Rightarrow> string \<Rightarrow> error + json" where
  "getitem (JObj kvs) k = (case map_of kvs k of None \<Rightarrow> Inl KeyError | Some v \<Rightarrow> Inr v)"
| "getitem _ k = Inl TypeError"

text \<open>\<^verbatim>\<open>x[0]\<close>. A dictionary read from JSON has no integer key.\<close>

fun getitem0 :: "json \<Rightarrow> error + json" where
  "getitem0 (JArr []) = Inl IndexError"
| "getitem0 (JArr (x # xs)) = Inr x"
| "getitem0 (JStr []) = Inl IndexError"
| "getitem0 (JStr (c # cs)) = Inr (JStr [c])"
| "getitem0 (JObj kvs) = Inl KeyError"
| "getitem0 _ = Inl TypeError"

text \<open>\<^verbatim>\<open>x.get(k, d)\<close>: only dictionaries have the method.\<close>

fun get_default :: "json \<Rightarrow> string \<Rightarrow> json \<Rightarrow> error + json" where
  "get_default (JObj kvs) k d = Inr (case map_of kvs k of None \<Rightarrow> d | Some v \<Rightarrow> v)"
| "get_default _ k d = Inl AttributeError"

text \<open>
  The elements a \<^verbatim>\<open>for\<close> loop, a generator or \<^verbatim>\<open>list.extend\<close> draws from a value:
  the elements of a list, the keys of a dictionary, the characters of a string.
\<close>

fun iter :: "json \<Rightarrow> error + json list" where
  "iter (JArr xs) = Inr xs"
| "iter (JObj kvs) = Inr (map (\<lambda>(k, v). JStr k) kvs)"
| "iter (JStr s) = Inr (map (\<lambda>c. JStr [c]) s)"
| "iter _ = Inl TypeError"

text \<open>
  \<^verbatim>\<open>d.update(patch)\<close> for a request body \<open>patch\<close> that is a JSON object: each key of
  the patch replaces the value in place or is added at the end.
\<close>

definition dict_merge :: "(string \<times> json) list \<Rightarrow> (string \<times> json) list \<Rightarrow> (string \<times> json) list" where
  "dict_merge kvs patch = fold (\<lambda>(k, v). AList.update k v) patch kvs"

fun dict_update :: "json \<Rightarrow> (string \<times> json) list \<Rightarrow> error + json" where
  "dict_update (JObj kvs) patch = Inr (JObj (dict_merge kvs patch))"
| "dict_update _ patch = Inl AttributeError"

text \<open>\<^verbatim>\<open>d[k] = v\<close> on a dictionary.\<close>

fun setitem :: "json \<Rightarrow> string \<Rightarrow> json \<Rightarrow> error + json" where
  "setitem (JObj kvs) k v = Inr (JObj (AList.update k v kvs))"
| "setitem _ k v = Inl TypeError"

text \<open>\<^verbatim>\<open>xs.append(v)\<close>: only lists have the method.\<close>

fun py_append :: "json \<Rightarrow> json \<Rightarrow> error + json" where
  "py_append (JArr xs) v = Inr (JArr (xs @ [v]))"
| "py_append _ v = Inl AttributeError"

section \<open>The backing store\<close>

text \<open>
  The file \<^verbatim>\<open>data.json\<close> is absent or present. The content of a present file is told
  by what \<^verbatim>\<open>json.load\<close> does with the file opened as UTF-8 text:
  \<^item> it is not JSON, and the parser raises \<^verbatim>\<open>JSONDecodeError\<close>;
  \<^item> its bytes are not UTF-8, and reading it raises \<^verbatim>\<open>UnicodeDecodeError\<close>;
  \<^item> it holds an integer literal longer than the interpreter's limit on integer
    conversion, and the parser raises \<^verbatim>\<open>ValueError\<close>;
  \<^item> it nests deeper than the interpreter's recursion limit, and the parser raises
    \<^verbatim>\<open>RecursionError\<close>;
  \<^item> it is the encoding of a value, which \<^verbatim>\<open>json.load\<close> returns.
  \<^verbatim>\<open>json.dump\<close> writes the encoding of the value it is given.
\<close>

datatype content = Rejected | Undecodable | HugeInteger | TooDeep | Encodes json

datatype store = Missing | Present content

abbreviation Corrupt :: store where
  "Corrupt \<equiv> Present Rejected"

abbreviation Parsed :: "json \<Rightarrow> store" where
  "Parsed d \<equiv> Present (Encodes d)"

text \<open>\<^verbatim>\<open>os.path.exists(DATA_FILE)\<close>.\<close>

fun path_exists :: "store \<Rightarrow> bool" where
  "path_exists Missing = False"
| "path_exists (Present c) = True"

text \<open>\<^verbatim>\<open>json.load(f)\<close> on the opened file.\<close>

fun json_load :: "content \<Rightarrow> error + json" where
  "json_load Rejected = Inl JSONDecodeError"
| "json_load Undecodable = Inl UnicodeDecodeError"
| "json_load HugeInteger = Inl ValueError"
| "json_load TooDeep = Inl RecursionError"
| "json_load (Encodes d) = Inr d"

definition default_data :: json where
  "default_data = JObj [(''cours'', JArr [])]"

text \<open>
  \<^verbatim>\<open>load_data\<close>, the same in both controllers: the \<^verbatim>\<open>try\<close> around \<^verbatim>\<open>json.load\<close> has
  one handler, for \<^verbatim>\<open>json.JSONDecodeError\<close>; any other exception leaves the function.
\<close>

definition load_data :: "store \<Rightarrow> error + json" where
  "load_data st =
     (if path_exists st then
        (case st of
           Present f \<Rightarrow>
             (case json_load f of
                Inr d \<Rightarrow> Inr d
              | Inl JSONDecodeError \<Rightarrow> Inr default_data
              | Inl e \<Rightarrow> Inl e)
         | Missing \<Rightarrow> Inr default_data)
      else Inr default_data)"

definition save_data :: "json \<Rightarrow> store" where
  "save_data d = Present (Encodes d)"

section \<open>Responses\<close>

text \<open>
  A handler returns a body and a status code, or raises. The message texts are the
  constants of the two controllers; a body is a message, a message with one more field,
  one field alone, or a stored value as it is.
\<close>

datatype message =
    COURSE_NOT_FOUND
  | COURSE_ALREADY_EXISTS
  | COURSE_CREATED
  | COURSE_UPDATED
  | COURSE_DELETED
  | SESSION_NOT_FOUND
  | SESSION_ALREADY_EXISTS
  | SESSION_CREATED_SUCCESS
  | SESSION_UPDATED_SUCCESS

datatype body =
    Msg message
  | MsgWith message string json
  | Field string json
  | Raw json

type_synonym response = "body \<times> nat"

type_synonym outcome = "(error + response) \<times> store"

section \<open>Lookups\<close>

text \<open>
  \<^verbatim>\<open>next((x for x in xs if x['id'] == k), None)\<close> and the inner loop of
  \<^verbatim>\<open>find_session_by_id\<close>: the first element whose \<^verbatim>\<open>id\<close> equals \<open>k\<close>, with its
  position, which stands for the reference Python returns. An element before the match
  that has no \<^verbatim>\<open>id\<close> raises.
\<close>

fun first_with_id :: "json list \<Rightarrow> json \<Rightarrow> error + (nat \<times> json) option" where
  "first_with_id [] k = Inr None"
| "first_with_id (x # xs) k =
     (case getitem x ''id'' of
        Inl e \<Rightarrow> Inl e
      | Inr v \<Rightarrow>
          if py_eq v k then Inr (Some (0, x))
          else (case first_with_id xs k of
                  Inl e \<Rightarrow> Inl e
                | Inr None \<Rightarrow> Inr None
                | Inr (Some (i, y)) \<Rightarrow> Inr (Some (Suc i, y))))"

definition find_course_by_id :: "json \<Rightarrow> int \<Rightarrow> error + (nat \<times> json) option" where
  "find_course_by_id data course_id =
     (case getitem data ''cours'' of
        Inl e \<Rightarrow> Inl e
      | Inr cours \<Rightarrow>
          (case iter cours of
             Inl e \<Rightarrow> Inl e
           | Inr cs \<Rightarrow> first_with_id cs (JNum course_id)))"

text \<open>The two loops of \<^verbatim>\<open>find_session_by_id\<close>, over the modules still to visit.\<close>

fun find_in_modules :: "json list \<Rightarrow> json \<Rightarrow> error + (nat \<times> nat \<times> json) option" where
  "find_in_modules [] k = Inr None"
| "find_in_modules (m # ms) k =
     (case get_default m ''seances'' (JArr []) of
        Inl e \<Rightarrow> Inl e
      | Inr seances \<Rightarrow>
          (case iter seances of
             Inl e \<Rightarrow> Inl e
           | Inr ss \<Rightarrow>
               (case first_with_id ss k of
                  Inl e \<Rightarrow> Inl e
                | Inr (Some (j, s)) \<Rightarrow> Inr (Some (0, j, s))
                | Inr None \<Rightarrow>
                    (case find_in_modules ms k of
                       Inl e \<Rightarrow> Inl e
                     | Inr None \<Rightarrow> Inr None
                     | Inr (Some (i, j, s)) \<Rightarrow> Inr (Some (Suc i, j, s))))))"

definition find_session_by_id :: "json \<Rightarrow> json \<Rightarrow> error + (nat \<times> nat \<times> json) option" where
  "find_session_by_id course session_id =
     (case get_default course ''modules'' (JArr []) of
        Inl e \<Rightarrow> Inl e
      | Inr modules \<Rightarrow>
          (case iter modules of
             Inl e \<Rightarrow> Inl e
           | Inr ms \<Rightarrow> find_in_modules ms session_id))"

section \<open>Writing a mutated object back\<close>

text \<open>
  The handlers mutate the found course or session in place and save the whole document.
  The values \<^verbatim>\<open>json.load\<close> builds share nothing, so a mutation of the object at a
  position is the document with that position replaced. The positions are those the
  lookups return, so they lie inside a list held by a dictionary; on any other shape, and
  on a position past the end, the functions below change nothing.
\<close>

fun put_cours :: "json \<Rightarrow> json \<Rightarrow> json" where
  "put_cours (JObj kvs) cours = JObj (AList.update ''cours'' cours kvs)"
| "put_cours d cours = d"

fun put_course :: "json \<Rightarrow> nat \<Rightarrow> json \<Rightarrow> json" where
  "put_course (JObj kvs) i c =
     (case map_of kvs ''cours'' of
        Some (JArr cs) \<Rightarrow> JObj (AList.update ''cours'' (JArr (cs[i := c])) kvs)
      | _ \<Rightarrow> JObj kvs)"
| "put_course d i c = d"

fun put_seance :: "json \<Rightarrow> nat \<Rightarrow> json \<Rightarrow> json" where
  "put_seance (JObj kvs) j s =
     (case map_of kvs ''seances'' of
        Some (JArr ss) \<Rightarrow> JObj (AList.update ''seances'' (JArr (ss[j := s])) kvs)
      | _ \<Rightarrow> JObj kvs)"
| "put_seance m j s = m"

fun put_session :: "json \<Rightarrow> nat \<Rightarrow> nat \<Rightarrow> json \<Rightarrow> json" where
  "put_session (JObj kvs) i j s =
     (case map_of kvs ''modules'' of
        Some (JArr ms) \<Rightarrow>
          (if i < length ms
           then JObj (AList.update ''modules'' (JArr (ms[i := put_seance (ms ! i) j s])) kvs)
           else JObj kvs)
      | _ \<Rightarrow> JObj kvs)"
| "put_session c i j s = c"

section \<open>The course controller\<close>

text \<open>
  Every handler takes the state of the store and returns its response, or the exception
  it raises, with the new state of the store. A request body is a JSON object.
\<close>

text \<open>\<^verbatim>\<open>courses_get\<close> of \<^verbatim>\<open>cours_controller.py\<close>.\<close>

definition courses_get :: "store \<Rightarrow> outcome" where
  "courses_get st =
     (case load_data st of
        Inl e \<Rightarrow> (Inl e, st)
      | Inr data \<Rightarrow>
          (case getitem data ''cours'' of
             Inl e \<Rightarrow> (Inl e, st)
           | Inr cours \<Rightarrow> (Inr (Field ''cours'' cours, 200), st)))"



text \<open>
  \<^verbatim>\<open>courses_course_id_get\<close>, \<^verbatim>\<open>courses_course_id_put\<close>: the course is looked up with the
  same generator as in \<^verbatim>\<open>find_course_by_id\<close>; \<^verbatim>\<open>course.update(course_data)\<close> changes the
  course where it stands in \<^verbatim>\<open>data['cours']\<close>.
\<close>

definition courses_course_id_get :: "int \<Rightarrow> store \<Rightarrow> outcome" where
  "courses_course_id_get course_id st =
     (case load_data st of
        Inl e \<Rightarrow> (Inl e, st)
      | Inr data \<Rightarrow>
          (case find_course_by_id data course_id of
               Inl e \<Rightarrow> (Inl e, st)
             | Inr None \<Rightarrow> (Inr (Msg COURSE_NOT_FOUND, 404), st)
             | Inr (Some (i, course)) \<Rightarrow>
                 if \<not> truthy course then (Inr (Msg COURSE_NOT_FOUND, 404), st)
                 else (Inr (Raw course, 200), st)))"

definition courses_course_id_put :: "int \<Rightarrow> (string \<times> json) list \<Rightarrow> store \<Rightarrow> outcome" where
  "courses_course_id_put course_id course_data st =
     (case load_data st of
        Inl e \<Rightarrow> (Inl e, st)
      | Inr data \<Rightarrow>
          (case find_course_by_id data course_id of
               Inl e \<Rightarrow> (Inl e, st)
             | Inr None \<Rightarrow> (Inr (Msg COURSE_NOT_FOUND, 404), st)
             | Inr (Some (i, course)) \<Rightarrow>
                 if \<not> truthy course then (Inr (Msg COURSE_NOT_FOUND, 404), st)
                 else (case dict_update course course_data of
                         Inl e \<Rightarrow> (Inl e, st)
                       | Inr course' \<Rightarrow>
                           (Inr (MsgWith COURSE_UPDATED ''cours'' course', 200),
                            save_data (put_course data i course')))))"

text \<open>
  \<^verbatim>\<open>data['cours'].remove(course)\<close> removes the first element that is the object
  \<open>course\<close>, found at position \<open>i\<close>, or that is equal to it.
\<close>

fun list_remove :: "nat \<Rightarrow> json \<Rightarrow> json list \<Rightarrow> error + json list" where
  "list_remove i c [] = Inl ValueError"
| "list_remove i c (x # xs) =
     (if i = 0 \<or> py_eq x c then Inr xs
      else (case list_remove (i - 1) c xs of
              Inl e \<Rightarrow> Inl e
            | Inr ys \<Rightarrow> Inr (x # ys)))"

fun py_remove :: "json \<Rightarrow> nat \<Rightarrow> json \<Rightarrow> error + json" where
  "py_remove (JArr xs) i c =
     (case list_remove i c xs of Inl e \<Rightarrow> Inl e | Inr ys \<Rightarrow> Inr (JArr ys))"
| "py_remove _ i c = Inl AttributeError"

definition courses_course_id_delete :: "int \<Rightarrow> store \<Rightarrow> outcome" where
  "courses_course_id_delete course_id st =
     (case load_data st of
        Inl e \<Rightarrow> (Inl e, st)
      | Inr data \<Rightarrow>
          (case find_course_by_id data course_id of
               Inl e \<Rightarrow> (Inl e, st)
             | Inr None \<Rightarrow> (Inr (Msg COURSE_NOT_FOUND, 404), st)
             | Inr (Some (i, course)) \<Rightarrow>
                 if \<not> truthy course then (Inr (Msg COURSE_NOT_FOUND, 404), st)
                 else (case getitem data ''cours'' of
                         Inl e \<Rightarrow> (Inl e, st)
                       | Inr cours \<Rightarrow>
                           (case py_remove cours i course of
                              Inl e \<Rightarrow> (Inl e, st)
                            | Inr cours' \<Rightarrow>
                                (Inr (Msg COURSE_DELETED, 200), save_data (put_cours data cours'))))))"

section \<open>The session controller\<close>

text \<open>The loop of \<^verbatim>\<open>courses_course_id_sessions_get\<close> over the modules.\<close>

fun extend_seances :: "json list \<Rightarrow> error + json list" where
  "extend_seances [] = Inr []"
| "extend_seances (m # ms) =
     (case get_default m ''seances'' (JArr []) of
        Inl e \<Rightarrow> Inl e
      | Inr seances \<Rightarrow>
          (case iter seances of
             Inl e \<Rightarrow> Inl e
           | Inr ss \<Rightarrow>
               (case extend_seances ms of
                  Inl e \<Rightarrow> Inl e
                | Inr rest \<Rightarrow> Inr (ss @ rest))))"

definition courses_course_id_sessions_get :: "int \<Rightarrow> store \<Rightarrow> outcome" where
  "courses_course_id_sessions_get course_id st =
     (case load_data st of
        Inl e \<Rightarrow> (Inl e, st)
      | Inr data \<Rightarrow>
          (case find_course_by_id data course_id of
               Inl e \<Rightarrow> (Inl e, st)
             | Inr None \<Rightarrow> (Inr (Msg COURSE_NOT_FOUND, 404), st)
             | Inr (Some (i, course)) \<Rightarrow>
                 if \<not> truthy course then (Inr (Msg COURSE_NOT_FOUND, 404), st)
                 else (case get_default course ''modules'' (JArr []) of
                         Inl e \<Rightarrow> (Inl e, st)
                       | Inr modules \<Rightarrow>
                           (case iter modules of
                              Inl e \<Rightarrow> (Inl e, st)
                            | Inr ms \<Rightarrow>
                                (case extend_seances ms of
                                   Inl e \<Rightarrow> (Inl e, st)
                                 | Inr sessions \<Rightarrow>
                                     (Inr (Field ''seances'' (JArr sessions), 200), st))))))"

text \<open>
  \<^verbatim>\<open>any(find_session_by_id(course, session_data['id']) for module in course['modules'])\<close>:
  one lookup through the whole course for each module, until one finds a session.
\<close>

fun any_find_session :: "json \<Rightarrow> (string \<times> json) list \<Rightarrow> json list \<Rightarrow> error + bool" where
  "any_find_session course session_data [] = Inr False"
| "any_find_session course session_data (m # ms) =
     (case getitem (JObj session_data) ''id'' of
        Inl e \<Rightarrow> Inl e
      | Inr k \<Rightarrow>
          (case find_session_by_id course k of
             Inl e \<Rightarrow> Inl e
           | Inr None \<Rightarrow> any_find_session course session_data ms
           | Inr (Some (i, j, s)) \<Rightarrow>
               if truthy s then Inr True else any_find_session course session_data ms))"

definition new_module :: json where
  "new_module =
     JObj [(''id'', JStr ''module_1''), (''titre'', JStr ''Nouveau module''),
           (''seances'', JArr [])]"

text \<open>
  The placement of the new session in the found course: the statements between the
  conflict test and \<^verbatim>\<open>save_data\<close>. The first module is \<^verbatim>\<open>course['modules'][0]\<close>; the
  session is appended to its \<^verbatim>\<open>seances\<close> in place.
\<close>

fun put_first_seances :: "json \<Rightarrow> json \<Rightarrow> json" where
  "put_first_seances (JObj kvs) seances =
     (case map_of kvs ''modules'' of
        Some (JArr (JObj mkvs # rest)) \<Rightarrow>
          JObj (AList.update ''modules''
                  (JArr (JObj (AList.update ''seances'' seances mkvs) # rest)) kvs)
      | _ \<Rightarrow> JObj kvs)"
| "put_first_seances c seances = c"

definition place_session :: "json \<Rightarrow> (string \<times> json) list \<Rightarrow> error + json" where
  "place_session course session_data =
     (case get_default course ''modules'' JNull of
        Inl e \<Rightarrow> Inl e
      | Inr mods \<Rightarrow>
          (case (if \<not> truthy mods then setitem course ''modules'' (JArr [new_module])
                 else Inr course) of
             Inl e \<Rightarrow> Inl e
           | Inr course1 \<Rightarrow>
               (case getitem course1 ''modules'' of
                  Inl e \<Rightarrow> Inl e
                | Inr modules \<Rightarrow>
                    (case getitem0 modules of
                       Inl e \<Rightarrow> Inl e
                     | Inr m0 \<Rightarrow>
                         (case getitem m0 ''seances'' of
                            Inl e \<Rightarrow> Inl e
                          | Inr seances \<Rightarrow>
                              (case py_append seances (JObj session_data) of
                                 Inl e \<Rightarrow> Inl e
                               | Inr seances' \<Rightarrow>
                                   Inr (put_first_seances course1 seances')))))))"

text \<open>
  \<^verbatim>\<open>courses_course_id_sessions_post\<close>: the generator given to \<^verbatim>\<open>any\<close> evaluates
  \<^verbatim>\<open>course['modules']\<close> and starts iterating over it before the first lookup.
\<close>

definition courses_course_id_sessions_post ::
  "int \<Rightarrow> (string \<times> json) list \<Rightarrow> store \<Rightarrow> outcome" where
  "courses_course_id_sessions_post course_id session_data st =
     (case load_data st of
        Inl e \<Rightarrow> (Inl e, st)
      | Inr data \<Rightarrow>
          (case find_course_by_id data course_id of
               Inl e \<Rightarrow> (Inl e, st)
             | Inr None \<Rightarrow> (Inr (Msg COURSE_NOT_FOUND, 404), st)
             | Inr (Some (i, course)) \<Rightarrow>
                 if \<not> truthy course then (Inr (Msg COURSE_NOT_FOUND, 404), st)
                 else (case getitem course ''modules'' of
                         Inl e \<Rightarrow> (Inl e, st)
                       | Inr modules \<Rightarrow>
                           (case iter modules of
                              Inl e \<Rightarrow> (Inl e, st)
                            | Inr ms \<Rightarrow>
                                (case any_find_session course session_data ms of
                                   Inl e \<Rightarrow> (Inl e, st)
                                 | Inr True \<Rightarrow> (Inr (Msg SESSION_ALREADY_EXISTS, 400), st)
                                 | Inr False \<Rightarrow>
                                     (case place_session course session_data of
                                        Inl e \<Rightarrow> (Inl e, st)
                                      | Inr course' \<Rightarrow>
                                          (Inr (MsgWith SESSION_CREATED_SUCCESS ''seance''
                                                  (JObj session_data), 201),
                                           save_data (put_course data i course'))))))))"

text \<open>
  \<^verbatim>\<open>courses_course_id_sessions_session_id_put\<close>: \<^verbatim>\<open>session.update(session_data)\<close> changes
  the session where \<^verbatim>\<open>find_session_by_id\<close> found it.
\<close>

definition courses_course_id_sessions_session_id_put ::
  "int \<Rightarrow> int \<Rightarrow> (string \<times> json) list \<Rightarrow> store \<Rightarrow> outcome" where
  "courses_course_id_sessions_session_id_put course_id session_id session_data st =
     (case load_data st of
        Inl e \<Rightarrow> (Inl e, st)
      | Inr data \<Rightarrow>
          (case find_course_by_id data course_id of
               Inl e \<Rightarrow> (Inl e, st)
             | Inr None \<Rightarrow> (Inr (Msg COURSE_NOT_FOUND, 404), st)
             | Inr (Some (i, course)) \<Rightarrow>
                 if \<not> truthy course then (Inr (Msg COURSE_NOT_FOUND, 404), st)
                 else (case find_session_by_id course (JNum session_id) of
                         Inl e \<Rightarrow> (Inl e, st)
                       | Inr None \<Rightarrow> (Inr (Msg SESSION_NOT_FOUND, 404), st)
                       | Inr (Some (mi, si, session)) \<Rightarrow>
                           if \<not> truthy session then (Inr (Msg SESSION_NOT_FOUND, 404), st)
                           else (case dict_update session session_data of
                                   Inl e \<Rightarrow> (Inl e, st)
                                 | Inr session' \<Rightarrow>
                                     (Inr (MsgWith SESSION_UPDATED_SUCCESS ''seance'' session', 200),
                                      save_data (put_course data i
                                                   (put_session course mi si session')))))))"

section \<open>The data model of the specification\<close>

text \<open>
  An entity is identified by its \<^verbatim>\<open>id\<close> field. \<open>has_id_eq k x\<close> says that \<open>x\<close> is
  an object whose \<^verbatim>\<open>id\<close> equals \<open>k\<close>, in the sense of Python's \<^verbatim>\<open>==\<close>.
\<close>

definition id_of :: "json \<Rightarrow> json option" where
  "id_of x = (case x of JObj kvs \<Rightarrow> map_of kvs ''id'' | _ \<Rightarrow> None)"

definition has_id :: "json \<Rightarrow> bool" where
  "has_id x = (id_of x \<noteq> None)"

definition has_id_eq :: "json \<Rightarrow> json \<Rightarrow> bool" where
  "has_id_eq k x = (case id_of x of None \<Rightarrow> False | Some v \<Rightarrow> py_eq v k)"

text \<open>
  A module is an object whose \<^verbatim>\<open>seances\<close>, when present, is a list; a course is an
  object whose \<^verbatim>\<open>modules\<close>, when present, is a list of modules. An absent container
  counts as an empty one.
\<close>

definition seances_of :: "json \<Rightarrow> json list" where
  "seances_of m =
     (case m of
        JObj kvs \<Rightarrow> (case map_of kvs ''seances'' of Some (JArr ss) \<Rightarrow> ss | _ \<Rightarrow> [])
      | _ \<Rightarrow> [])"

definition is_module :: "json \<Rightarrow> bool" where
  "is_module m =
     (case m of
        JObj kvs \<Rightarrow>
          (case map_of kvs ''seances'' of None \<Rightarrow> True | Some (JArr ss) \<Rightarrow> True | Some _ \<Rightarrow> False)
      | _ \<Rightarrow> False)"

definition modules_of :: "json \<Rightarrow> json list" where
  "modules_of c =
     (case c of
        JObj kvs \<Rightarrow> (case map_of kvs ''modules'' of Some (JArr ms) \<Rightarrow> ms | _ \<Rightarrow> [])
      | _ \<Rightarrow> [])"

definition is_course :: "json \<Rightarrow> bool" where
  "is_course c =
     (case c of
        JObj kvs \<Rightarrow>
          (case map_of kvs ''modules'' of
             None \<Rightarrow> True
           | Some (JArr ms) \<Rightarrow> list_all is_module ms
           | Some _ \<Rightarrow> False)
      | _ \<Rightarrow> False)"

text \<open>A document, a course and a module with one container replaced.\<close>

abbreviation with_cours :: "(string \<times> json) list \<Rightarrow> json list \<Rightarrow> json" where
  "with_cours kvs cs \<equiv> JObj (AList.update ''cours'' (JArr cs) kvs)"

abbreviation with_modules :: "(string \<times> json) list \<Rightarrow> json list \<Rightarrow> json" where
  "with_modules c ms \<equiv> JObj (AList.update ''modules'' (JArr ms) c)"

abbreviation with_seances :: "(string \<times> json) list \<Rightarrow> json list \<Rightarrow> json" where
  "with_seances m ss \<equiv> JObj (AList.update ''seances'' (JArr ss) m)"

section \<open>Example documents\<close>

text \<open>A document with three courses: one without modules, one with an empty list of
  modules, one with three modules of which the second has no \<^verbatim>\<open>seances\<close>.\<close>

definition course_a :: json where
  "course_a = JObj [(''id'', JNum 1), (''title'', JStr ''A'')]"

definition course_b :: json where
  "course_b = JObj [(''id'', JNum 2), (''modules'', JArr [])]"

definition module_x :: json where
  "module_x = JObj [(''id'', JStr ''m1''), (''seances'', JArr [JObj [(''id'', JNum 10)]])]"

definition module_y :: json where
  "module_y = JObj [(''id'', JStr ''m2'')]"

definition module_z :: json where
  "module_z =
     JObj [(''id'', JStr ''m3''),
           (''seances'', JArr [JObj [(''id'', JNum 20)], JObj [(''id'', JNum 30), (''titre'', JStr ''T'')]])]"

definition course_c :: json where
  "course_c = JObj [(''id'', JNum 3), (''modules'', JArr [module_x, module_y, module_z])]"

definition example_data :: json where
  "example_data = JObj [(''cours'', JArr [course_a, course_b, course_c])]"

text \<open>The second course after one and after two sessions were created in it.\<close>

definition course_b_once :: json where
  "course_b_once =
     JObj [(''id'', JNum 2),
           (''modules'', JArr [JObj [(''id'', JStr ''module_1''), (''titre'', JStr ''Nouveau module''),
                                     (''seances'', JArr [JObj [(''id'', JNum 5)]])]])]"

definition course_b_twice :: json where
  "course_b_twice =
     JObj [(''id'', JNum 2),
           (''modules'', JArr [JObj [(''id'', JStr ''module_1''), (''titre'', JStr ''Nouveau module''),
                                     (''seances'', JArr [JObj [(''id'', JNum 5)], JObj [(''id'', JNum 6)]])]])]"

text \<open>The second course with a title merged in, and the third with its last session
  patched.\<close>

definition course_b_titled :: json where
  "course_b_titled = JObj [(''id'', JNum 2), (''modules'', JArr []), (''title'', JStr ''B'')]"

definition course_c_patched :: json where
  "course_c_patched =
     JObj [(''id'', JNum 3),
           (''modules'', JArr [module_x, module_y,
              JObj [(''id'', JStr ''m3''),
                    (''seances'', JArr [JObj [(''id'', JNum 20)],
                                        JObj [(''id'', JNum 30), (''titre'', JStr ''U'')]])]])]"

text \<open>
  One course, four times: without \<^verbatim>\<open>modules\<close>, with an empty \<^verbatim>\<open>modules\<close>, with one
  module without \<^verbatim>\<open>seances\<close>, with one module with an empty \<^verbatim>\<open>seances\<close>.
\<close>

definition absent_modules :: json where
  "absent_modules = JObj [(''cours'', JArr [JObj [(''id'', JNum 1)]])]"

definition empty_modules :: json where
  "empty_modules = JObj [(''cours'', JArr [JObj [(''id'', JNum 1), (''modules'', JArr [])]])]"

definition absent_seances :: json where
  "absent_seances =
     JObj [(''cours'', JArr [JObj [(''id'', JNum 1), (''modules'', JArr [JObj [(''id'', JStr ''m'')]])]])]"

definition empty_seances :: json where
  "empty_seances =
     JObj [(''cours'', JArr [JObj [(''id'', JNum 1),
        (''modules'', JArr [JObj [(''id'', JStr ''m''), (''seances'', JArr [])]])]])]"

section \<open>Loading, case by case\<close>

lemma load_data_Missing [simp]: "load_data Missing = Inr default_data"
  by (simp add: load_data_def)

lemma load_data_Present [simp]:
  "load_data (Present f) =
     (case json_load f of
        Inr d \<Rightarrow> Inr d
      | Inl JSONDecodeError \<Rightarrow> Inr default_data
      | Inl e \<Rightarrow> Inl e)"
  by (simp add: load_data_def)

section \<open>Lookups find the first match\<close>

lemma getitem_id: "getitem x ''id'' = (case id_of x of None \<Rightarrow> (case x of JObj kvs \<Rightarrow> Inl KeyError | _ \<Rightarrow> Inl TypeError) | Some v \<Rightarrow> Inr v)"
  by (cases x) (auto simp: id_of_def split: option.splits)

lemma first_with_id_found:
  "\<forall>x\<in>set pre. has_id x \<and> \<not> has_id_eq k x \<Longrightarrow> has_id_eq k c \<Longrightarrow>
   first_with_id (pre @ c # post) k = Inr (Some (length pre, c))"
  by (induction pre) (auto simp: getitem_id has_id_def has_id_eq_def split: option.splits)

lemma first_with_id_none:
  "\<forall>x\<in>set xs. has_id x \<and> \<not> has_id_eq k x \<Longrightarrow> first_with_id xs k = Inr None"
  by (induction xs) (auto simp: getitem_id has_id_def has_id_eq_def split: option.splits)

lemma first_with_id_SomeD:
  "first_with_id xs k = Inr (Some (i, c)) \<Longrightarrow>
   \<exists>pre post. xs = pre @ c # post \<and> i = length pre \<and>
     (\<forall>x\<in>set pre. has_id x \<and> \<not> has_id_eq k x) \<and> has_id_eq k c"
proof (induction xs arbitrary: i)
  case Nil
  then show ?case by simp
next
  case (Cons x xs)
  show ?case
  proof (cases "has_id_eq k x")
    case True
    with Cons.prems have "i = 0" "c = x"
      by (auto simp: getitem_id has_id_eq_def split: option.splits)
    with True show ?thesis by (intro exI[of _ "[]"] exI[of _ xs]) auto
  next
    case False
    with Cons.prems obtain j where j: "first_with_id xs k = Inr (Some (j, c))" "i = Suc j" "has_id x"
      by (auto simp: getitem_id has_id_eq_def has_id_def split: option.splits sum.splits if_splits json.splits)
    from Cons.IH[OF j(1)] obtain pre post where
      "xs = pre @ c # post" "j = length pre" "\<forall>x\<in>set pre. has_id x \<and> \<not> has_id_eq k x" "has_id_eq k c"
      by blast
    with False j show ?thesis
      by (intro exI[of _ "x # pre"] exI[of _ post]) auto
  qed
qed

lemma first_with_id_strs:
  "\<forall>x\<in>set xs. \<not> has_id x \<Longrightarrow> first_with_id xs k = Inr r \<Longrightarrow> xs = [] \<and> r = None"
  by (cases xs) (auto simp: getitem_id has_id_def split: option.splits json.splits)

lemma has_id_eq_imp_has_id: "has_id_eq k x \<Longrightarrow> has_id x"
  by (simp add: has_id_eq_def has_id_def split: option.splits)

lemma has_id_truthy: "has_id x \<Longrightarrow> truthy x"
  by (cases x) (auto simp: has_id_def id_of_def)

lemma has_id_obj: "has_id x \<Longrightarrow> \<exists>kvs. x = JObj kvs"
  by (cases x) (auto simp: has_id_def id_of_def)

lemma find_course_found:
  "map_of kvs ''cours'' = Some (JArr (pre @ c # post)) \<Longrightarrow>
   \<forall>x\<in>set pre. has_id x \<and> \<not> has_id_eq (JNum cid) x \<Longrightarrow> has_id_eq (JNum cid) c \<Longrightarrow>
   find_course_by_id (JObj kvs) cid = Inr (Some (length pre, c))"
  by (simp add: find_course_by_id_def first_with_id_found)

lemma find_course_none:
  "map_of kvs ''cours'' = Some (JArr cs) \<Longrightarrow>
   \<forall>x\<in>set cs. has_id x \<and> \<not> has_id_eq (JNum cid) x \<Longrightarrow>
   find_course_by_id (JObj kvs) cid = Inr None"
  by (simp add: find_course_by_id_def first_with_id_none)

lemma iter_not_arr: "iter v = Inr xs \<Longrightarrow> (\<forall>ys. v \<noteq> JArr ys) \<Longrightarrow> \<forall>x\<in>set xs. \<not> has_id x"
  by (cases v) (auto simp: has_id_def id_of_def)

lemma find_course_SomeD:
  assumes "find_course_by_id d cid = Inr (Some (i, c))"
  shows "\<exists>kvs pre post. d = JObj kvs \<and> map_of kvs ''cours'' = Some (JArr (pre @ c # post)) \<and>
           i = length pre \<and> (\<forall>x\<in>set pre. has_id x \<and> \<not> has_id_eq (JNum cid) x) \<and>
           has_id_eq (JNum cid) c"
proof -
  from assms obtain kvs cours cs where d: "d = JObj kvs" "map_of kvs ''cours'' = Some cours"
    and it: "iter cours = Inr cs" and f: "first_with_id cs (JNum cid) = Inr (Some (i, c))"
    by (cases d) (auto simp: find_course_by_id_def split: option.splits sum.splits)
  have "\<exists>ys. cours = JArr ys"
  proof (rule ccontr)
    assume "\<not> (\<exists>ys. cours = JArr ys)"
    with it have "\<forall>x\<in>set cs. \<not> has_id x" using iter_not_arr by blast
    with f show False using first_with_id_strs by blast
  qed
  with it have "cours = JArr cs" by auto
  with d first_with_id_SomeD[OF f] show ?thesis by auto
qed


lemma put_course_at:
  "map_of kvs ''cours'' = Some (JArr (pre @ c # post)) \<Longrightarrow>
   put_course (JObj kvs) (length pre) c' = JObj (AList.update ''cours'' (JArr (pre @ c' # post)) kvs)"
  by simp


lemma py_eq_num_trans: "py_eq v w \<Longrightarrow> py_eq w (JNum n) \<Longrightarrow> py_eq v (JNum n)"
  by (cases v; cases w) (auto split: if_splits)

lemma py_eq_has_id_eq:
  assumes "py_eq x c" "has_id x" "has_id_eq (JNum n) c"
  shows "has_id_eq (JNum n) x"
proof -
  from assms(2) obtain a v where x: "x = JObj a" "map_of a ''id'' = Some v"
    by (cases x) (auto simp: has_id_def id_of_def)
  from assms(3) obtain b w where c: "c = JObj b" "map_of b ''id'' = Some w" "py_eq w (JNum n)"
    by (cases c) (auto simp: has_id_eq_def id_of_def split: option.splits)
  from x have "(''id'', v) \<in> set a" by (simp add: map_of_SomeD)
  with assms(1) x c have "py_eq v w" by (auto split: option.splits)
  with c(3) have "py_eq v (JNum n)" using py_eq_num_trans by blast
  with x show ?thesis by (simp add: has_id_eq_def id_of_def)
qed

lemma list_remove_at:
  "\<forall>x\<in>set pre. \<not> py_eq x c \<Longrightarrow> list_remove (length pre) c (pre @ c # post) = Inr (pre @ post)"
  by (induction pre) auto

lemma py_remove_found:
  assumes "\<forall>x\<in>set pre. has_id x \<and> \<not> has_id_eq (JNum n) x" "has_id_eq (JNum n) c"
  shows "py_remove (JArr (pre @ c # post)) (length pre) c = Inr (JArr (pre @ post))"
proof -
  from assms have "\<forall>x\<in>set pre. \<not> py_eq x c" using py_eq_has_id_eq by blast
  then show ?thesis by (simp add: list_remove_at)
qed

lemmas example_defs =
  example_data_def course_a_def course_b_def course_c_def module_x_def module_y_def module_z_def

lemmas model_defs = has_id_def has_id_eq_def id_of_def is_course_def is_module_def
  modules_of_def seances_of_def

lemma module_seances:
  "is_module m \<Longrightarrow>
   (case get_default m ''seances'' (JArr []) of Inl e \<Rightarrow> Inl e | Inr v \<Rightarrow> iter v) = Inr (seances_of m)"
  by (cases m) (auto simp: is_module_def seances_of_def split: option.splits json.splits)

lemma course_modules:
  "is_course c \<Longrightarrow>
   (case get_default c ''modules'' (JArr []) of Inl e \<Rightarrow> Inl e | Inr v \<Rightarrow> iter v) = Inr (modules_of c) \<and>
   (\<forall>m\<in>set (modules_of c). is_module m)"
  by (cases c) (auto simp: is_course_def modules_of_def list_all_iff split: option.splits json.splits)

lemma extend_seances_concat:
  "\<forall>m\<in>set ms. is_module m \<Longrightarrow> extend_seances ms = Inr (concat (map seances_of ms))"
proof (induction ms)
  case Nil
  then show ?case by simp
next
  case (Cons m ms)
  then have "is_module m" by simp
  from module_seances[OF this] Cons show ?case
    by (auto split: sum.splits)
qed

lemma find_in_modules_none:
  "\<forall>x\<in>set ms. is_module x \<and> (\<forall>s\<in>set (seances_of x). has_id s \<and> \<not> has_id_eq k s) \<Longrightarrow>
   find_in_modules ms k = Inr None"
proof (induction ms)
  case Nil
  then show ?case by simp
next
  case (Cons m ms)
  then have "is_module m" and "first_with_id (seances_of m) k = Inr None"
    by (simp_all add: first_with_id_none)
  with module_seances[of m] Cons show ?case
    by (auto split: sum.splits)
qed

lemma find_in_modules_found:
  assumes "\<forall>x\<in>set mpre. is_module x \<and> (\<forall>s\<in>set (seances_of x). has_id s \<and> \<not> has_id_eq k s)"
    and "is_module m" and "seances_of m = spre @ s # spost"
    and "\<forall>x\<in>set spre. has_id x \<and> \<not> has_id_eq k x" and "has_id_eq k s"
  shows "find_in_modules (mpre @ m # mpost) k = Inr (Some (length mpre, length spre, s))"
  using assms(1)
proof (induction mpre)
  case Nil
  from assms have "first_with_id (seances_of m) k = Inr (Some (length spre, s))"
    by (simp add: first_with_id_found)
  with module_seances[OF assms(2)] show ?case
    by (auto split: sum.splits)
next
  case (Cons x mpre)
  then have "is_module x" and "first_with_id (seances_of x) k = Inr None"
    by (simp_all add: first_with_id_none)
  with module_seances[of x] Cons show ?case
    by (auto split: sum.splits)
qed


lemma find_session_none:
  assumes "is_course c"
    and "\<forall>x\<in>set (modules_of c). \<forall>s\<in>set (seances_of x). has_id s \<and> \<not> has_id_eq k s"
  shows "find_session_by_id c k = Inr None"
proof -
  from course_modules[OF assms(1)] assms(2)
  have "find_in_modules (modules_of c) k = Inr None"
    by (intro find_in_modules_none) auto
  with course_modules[OF assms(1)] show ?thesis
    by (auto simp: find_session_by_id_def split: sum.splits)
qed


lemma find_in_modules_some:
  assumes "\<forall>x\<in>set ms. is_module x \<and> (\<forall>s\<in>set (seances_of x). has_id s)"
    and "\<exists>m\<in>set ms. \<exists>s\<in>set (seances_of m). has_id_eq k s"
  shows "\<exists>i j s. find_in_modules ms k = Inr (Some (i, j, s)) \<and> has_id_eq k s"
proof -
  from split_list_first_prop[OF assms(2)] obtain mpre m mpost where
    ms: "ms = mpre @ m # mpost" and m: "\<exists>s\<in>set (seances_of m). has_id_eq k s"
    and mpre: "\<forall>y\<in>set mpre. \<not> (\<exists>s\<in>set (seances_of y). has_id_eq k s)"
    by blast
  from split_list_first_prop[OF m] obtain spre s spost where
    ss: "seances_of m = spre @ s # spost" and s: "has_id_eq k s"
    and spre: "\<forall>y\<in>set spre. \<not> has_id_eq k y"
    by blast
  from assms(1) ms mpre
  have 1: "\<forall>x\<in>set mpre. is_module x \<and> (\<forall>s\<in>set (seances_of x). has_id s \<and> \<not> has_id_eq k s)"
    by auto
  from assms(1) ms have 2: "is_module m" by simp
  from assms(1) ms ss spre have 3: "\<forall>x\<in>set spre. has_id x \<and> \<not> has_id_eq k x" by auto
  from find_in_modules_found[OF 1 2 ss 3 s] ms s show ?thesis by blast
qed

lemma find_session_some:
  assumes "is_course c" "\<forall>m\<in>set (modules_of c). \<forall>s\<in>set (seances_of m). has_id s"
    and "\<exists>m\<in>set (modules_of c). \<exists>s\<in>set (seances_of m). has_id_eq k s"
  shows "\<exists>i j s. find_session_by_id c k = Inr (Some (i, j, s)) \<and> has_id_eq k s"
proof -
  note cm = course_modules[OF assms(1)]
  with assms(2) have "\<forall>x\<in>set (modules_of c). is_module x \<and> (\<forall>s\<in>set (seances_of x). has_id s)"
    by auto
  from find_in_modules_some[OF this assms(3)] obtain i j s where
    "find_in_modules (modules_of c) k = Inr (Some (i, j, s))" "has_id_eq k s" by blast
  with cm show ?thesis
    by (auto simp: find_session_by_id_def split: sum.splits)
qed

lemma any_find_session_none:
  "find_session_by_id c k = Inr None \<Longrightarrow> map_of sd ''id'' = Some k \<Longrightarrow>
   any_find_session c sd ms = Inr False"
  by (induction ms) auto

lemma any_find_session_some:
  "find_session_by_id c k = Inr (Some (i, j, s)) \<Longrightarrow> truthy s \<Longrightarrow> map_of sd ''id'' = Some k \<Longrightarrow>
   any_find_session c sd ms = Inr (ms \<noteq> [])"
  by (cases ms) auto

lemma sessions_post_400_unchanged:
  "courses_course_id_sessions_post cid sd st = (Inr (b, 400), st') \<Longrightarrow>
   b = Msg SESSION_ALREADY_EXISTS \<and> st' = st"
  by (auto simp: courses_course_id_sessions_post_def Let_def
      split: sum.splits option.splits if_splits bool.splits)

lemma sessions_post_201:
  "courses_course_id_sessions_post cid sd st = (Inr (b, 201), st') \<Longrightarrow>
   \<exists>data i c mods ms c'. load_data st = Inr data \<and>
     find_course_by_id data cid = Inr (Some (i, c)) \<and>
     getitem c ''modules'' = Inr mods \<and> iter mods = Inr ms \<and>
     place_session c sd = Inr c' \<and> st' = Parsed (put_course data i c') \<and>
     b = MsgWith SESSION_CREATED_SUCCESS ''seance'' (JObj sd)"
  by (auto simp: courses_course_id_sessions_post_def Let_def save_data_def
      split: sum.splits option.splits if_splits bool.splits)

lemma falsy_iter: "\<not> truthy v \<Longrightarrow> iter v = Inr ms \<Longrightarrow> ms = []"
  by (cases v) auto

lemma place_session_empty:
  "map_of c ''modules'' = Some mods \<Longrightarrow> \<not> truthy mods \<Longrightarrow>
   place_session (JObj c) sd =
     Inr (JObj (AList.update ''modules''
           (JArr [JObj [(''id'', JStr ''module_1''), (''titre'', JStr ''Nouveau module''),
                        (''seances'', JArr [JObj sd])]]) c))"
  by (simp add: place_session_def new_module_def update_conv')

lemma place_session_nonempty:
  "map_of c ''modules'' = Some (JArr (JObj m # rest)) \<Longrightarrow>
   map_of m ''seances'' = Some (JArr ss) \<Longrightarrow>
   place_session (JObj c) sd =
     Inr (JObj (AList.update ''modules''
           (JArr (JObj (AList.update ''seances'' (JArr (ss @ [JObj sd])) m) # rest)) c))"
  by (simp add: place_session_def)

lemma place_session_truthy:
  assumes "place_session (JObj c) sd = Inr c'" "map_of c ''modules'' = Some mods" "truthy mods"
  shows "\<exists>m rest ss. mods = JArr (JObj m # rest) \<and> map_of m ''seances'' = Some (JArr ss)"
proof -
  from assms obtain m0 seances seances' where
    g: "getitem0 mods = Inr m0" "getitem m0 ''seances'' = Inr seances"
       "py_append seances (JObj sd) = Inr seances'"
    by (auto simp: place_session_def split: sum.splits)
  from g(2) obtain m where m: "m0 = JObj m" "map_of m ''seances'' = Some seances"
    by (cases m0) (auto split: option.splits)
  from g(3) obtain ss where ss: "seances = JArr ss" by (cases seances) auto
  from g(1) m(1) obtain rest where "mods = JArr (JObj m # rest)"
    by (cases mods rule: getitem0.cases) auto
  with m ss show ?thesis by blast
qed

lemma sessions_post_201_shape:
  assumes "courses_course_id_sessions_post cid sd st = (Inr (b, 201), st')"
  shows "\<exists>kvs pre c post mods.
      load_data st = Inr (JObj kvs) \<and> map_of kvs ''cours'' = Some (JArr (pre @ JObj c # post)) \<and>
      (\<forall>x\<in>set pre. has_id x \<and> \<not> has_id_eq (JNum cid) x) \<and> has_id_eq (JNum cid) (JObj c) \<and>
      map_of c ''modules'' = Some mods \<and>
      ((iter mods = Inr [] \<and>
        st' = Parsed (with_cours kvs (pre @
                with_modules c [JObj [(''id'', JStr ''module_1''), (''titre'', JStr ''Nouveau module''),
                                      (''seances'', JArr [JObj sd])]] # post))) \<or>
       (\<exists>m rest ss. mods = JArr (JObj m # rest) \<and> map_of m ''seances'' = Some (JArr ss) \<and>
          st' = Parsed (with_cours kvs (pre @
                  with_modules c (with_seances m (ss @ [JObj sd]) # rest) # post))))"
proof -
  from sessions_post_201[OF assms] obtain data i c0 mods ms c' where
    ld: "load_data st = Inr data"
    and f: "find_course_by_id data cid = Inr (Some (i, c0))"
    and g: "getitem c0 ''modules'' = Inr mods" and it: "iter mods = Inr ms"
    and p: "place_session c0 sd = Inr c'" and s: "st' = Parsed (put_course data i c')"
    by blast
  from find_course_SomeD[OF f] ld obtain kvs pre post where
    dd: "data = JObj kvs"
    and d: "load_data st = Inr (JObj kvs)" "map_of kvs ''cours'' = Some (JArr (pre @ c0 # post))"
      "i = length pre" "\<forall>x\<in>set pre. has_id x \<and> \<not> has_id_eq (JNum cid) x"
      "has_id_eq (JNum cid) c0"
    by blast
  from d(5) obtain c where c: "c0 = JObj c" using has_id_eq_imp_has_id has_id_obj by blast
  from g c have m: "map_of c ''modules'' = Some mods" by (auto split: option.splits)
  from s d dd have s': "st' = Parsed (with_cours kvs (pre @ c' # post))"
    by (simp only: put_course_at)
  show ?thesis
  proof (cases "truthy mods")
    case False
    with it have "iter mods = Inr []" using falsy_iter by blast
    moreover from place_session_empty[OF m False, of sd] p c
    have "c' = with_modules c [JObj [(''id'', JStr ''module_1''), (''titre'', JStr ''Nouveau module''),
                                      (''seances'', JArr [JObj sd])]]" by simp
    ultimately show ?thesis using d c m s' by blast
  next
    case True
    from place_session_truthy[OF p[unfolded c] m True] obtain m0 rest ss where
      mm: "mods = JArr (JObj m0 # rest)" "map_of m0 ''seances'' = Some (JArr ss)" by blast
    from place_session_nonempty[OF m[unfolded mm(1)] mm(2), of sd] p c
    have "c' = with_modules c (with_seances m0 (ss @ [JObj sd]) # rest)" by simp
    with d c m s' mm show ?thesis by blast
  qed
qed

lemma sessions_post_201_after:
  assumes "courses_course_id_sessions_post cid sd st = (Inr (b, 201), st')"
  shows "\<exists>kvs pre c post m rest ss.
      load_data st' = Inr (JObj kvs) \<and> map_of kvs ''cours'' = Some (JArr (pre @ JObj c # post)) \<and>
      (\<forall>x\<in>set pre. has_id x \<and> \<not> has_id_eq (JNum cid) x) \<and> has_id_eq (JNum cid) (JObj c) \<and>
      map_of c ''modules'' = Some (JArr (JObj m # rest)) \<and>
      map_of m ''seances'' = Some (JArr (ss @ [JObj sd]))"
proof -
  from sessions_post_201_shape[OF assms] obtain kvs pre c post mods where
    d: "(\<forall>x\<in>set pre. has_id x \<and> \<not> has_id_eq (JNum cid) x)" "has_id_eq (JNum cid) (JObj c)"
    and alt: "(st' = Parsed (with_cours kvs (pre @
                with_modules c [JObj [(''id'', JStr ''module_1''), (''titre'', JStr ''Nouveau module''),
                                      (''seances'', JArr [JObj sd])]] # post))) \<or>
       (\<exists>m rest ss. map_of m ''seances'' = Some (JArr ss) \<and>
          st' = Parsed (with_cours kvs (pre @
                  with_modules c (with_seances m (ss @ [JObj sd]) # rest) # post)))"
    by blast
  have keep: "has_id_eq (JNum cid) (with_modules c ms)" for ms
    using d(2) by (simp add: has_id_eq_def id_of_def update_conv')
  from alt show ?thesis
  proof
    assume s: "st' = Parsed (with_cours kvs (pre @
                with_modules c [JObj [(''id'', JStr ''module_1''), (''titre'', JStr ''Nouveau module''),
                                      (''seances'', JArr [JObj sd])]] # post))"
    show ?thesis
      apply (rule exI[of _ "AList.update ''cours'' (JArr (pre @
                with_modules c [JObj [(''id'', JStr ''module_1''), (''titre'', JStr ''Nouveau module''),
                                      (''seances'', JArr [JObj sd])]] # post)) kvs"])
      apply (rule exI[of _ pre])
      apply (rule exI[of _ "AList.update ''modules'' (JArr [JObj [(''id'', JStr ''module_1''), (''titre'', JStr ''Nouveau module''),
                                      (''seances'', JArr [JObj sd])]]) c"])
      apply (rule exI[of _ post])
      apply (rule exI[of _ "[(''id'', JStr ''module_1''), (''titre'', JStr ''Nouveau module''),
                                      (''seances'', JArr [JObj sd])]"])
      apply (rule exI[of _ "[]"])
      apply (rule exI[of _ "[]"])
      using s d keep by (simp add: update_conv')
  next
    assume "\<exists>m rest ss. map_of m ''seances'' = Some (JArr ss) \<and>
          st' = Parsed (with_cours kvs (pre @
                  with_modules c (with_seances m (ss @ [JObj sd]) # rest) # post))"
    then obtain m rest ss where s: "st' = Parsed (with_cours kvs (pre @
                  with_modules c (with_seances m (ss @ [JObj sd]) # rest) # post))"
      by blast
    show ?thesis
      apply (rule exI[of _ "AList.update ''cours'' (JArr (pre @
                  with_modules c (with_seances m (ss @ [JObj sd]) # rest) # post)) kvs"])
      apply (rule exI[of _ pre])
      apply (rule exI[of _ "AList.update ''modules'' (JArr (with_seances m (ss @ [JObj sd]) # rest)) c"])
      apply (rule exI[of _ post])
      apply (rule exI[of _ "AList.update ''seances'' (JArr (ss @ [JObj sd])) m"])
      apply (rule exI[of _ rest])
      apply (rule exI[of _ ss])
      using s d keep by (simp add: update_conv')
  qed
qed

lemma sessions_post_201_twice:
  assumes "courses_course_id_sessions_post cid sd1 st0 = (Inr (b1, 201), st1)"
    and "courses_course_id_sessions_post cid sd2 st1 = (Inr (b2, 201), st2)"
  shows "\<exists>kvs pre c post m rest ss.
      load_data st1 = Inr (JObj kvs) \<and> map_of kvs ''cours'' = Some (JArr (pre @ JObj c # post)) \<and>
      (\<forall>x\<in>set pre. has_id x \<and> \<not> has_id_eq (JNum cid) x) \<and> has_id_eq (JNum cid) (JObj c) \<and>
      map_of c ''modules'' = Some (JArr (JObj m # rest)) \<and>
      map_of m ''seances'' = Some (JArr (ss @ [JObj sd1])) \<and>
      st2 = Parsed (with_cours kvs (pre @
              with_modules c (with_seances m (ss @ [JObj sd1, JObj sd2]) # rest) # post))"
proof -
  from sessions_post_201_after[OF assms(1)] obtain kvs pre c post m rest ss where
    d: "load_data st1 = Inr (JObj kvs)" "map_of kvs ''cours'' = Some (JArr (pre @ JObj c # post))"
      "\<forall>x\<in>set pre. has_id x \<and> \<not> has_id_eq (JNum cid) x" "has_id_eq (JNum cid) (JObj c)"
      "map_of c ''modules'' = Some (JArr (JObj m # rest))"
      "map_of m ''seances'' = Some (JArr (ss @ [JObj sd1]))"
    by blast
  from sessions_post_201[OF assms(2)] obtain data i c0 c' where
    ld: "load_data st1 = Inr data"
    and f: "find_course_by_id data cid = Inr (Some (i, c0))"
    and p: "place_session c0 sd2 = Inr c'" and s: "st2 = Parsed (put_course data i c')"
    by blast
  from ld d(1) have dd: "data = JObj kvs" by simp
  from find_course_found[OF d(2,3,4)] f dd have ic: "i = length pre" "c0 = JObj c" by simp_all
  from place_session_nonempty[OF d(5,6), of sd2] p ic
  have "c' = with_modules c (with_seances m (ss @ [JObj sd1, JObj sd2]) # rest)" by simp
  moreover from s d ic dd have "st2 = Parsed (with_cours kvs (pre @ c' # post))"
    by (simp only: put_course_at)
  ultimately show ?thesis using d by blast
qed

lemma course_put_200:
  "courses_course_id_put cid patch st = (Inr (b, 200), st') \<Longrightarrow>
   \<exists>data i c c'. load_data st = Inr data \<and>
     find_course_by_id data cid = Inr (Some (i, c)) \<and>
     st' = Parsed (put_course data i c')"
  by (auto simp: courses_course_id_put_def Let_def save_data_def
      split: sum.splits option.splits if_splits)

lemma course_delete_200:
  "courses_course_id_delete cid st = (Inr (b, 200), st') \<Longrightarrow>
   \<exists>data i c cours cours'. load_data st = Inr data \<and>
     find_course_by_id data cid = Inr (Some (i, c)) \<and>
     getitem data ''cours'' = Inr cours \<and> py_remove cours i c = Inr cours' \<and>
     st' = Parsed (put_cours data cours')"
  by (auto simp: courses_course_id_delete_def Let_def save_data_def
      split: sum.splits option.splits if_splits)

lemma session_put_200:
  "courses_course_id_sessions_session_id_put cid sid patch st = (Inr (b, 200), st') \<Longrightarrow>
   \<exists>data i c c'. load_data st = Inr data \<and>
     find_course_by_id data cid = Inr (Some (i, c)) \<and>
     st' = Parsed (put_course data i c')"
  by (fastforce simp: courses_course_id_sessions_session_id_put_def Let_def save_data_def
      split: sum.splits option.splits if_splits)

lemma found_course_frame:
  assumes "load_data st = Inr data" "find_course_by_id data cid = Inr (Some (i, c))"
  shows "\<exists>kvs pre post.
      data = JObj kvs \<and>
      load_data st = Inr (JObj kvs) \<and> map_of kvs ''cours'' = Some (JArr (pre @ c # post)) \<and>
      (\<forall>x\<in>set pre. has_id x \<and> \<not> has_id_eq (JNum cid) x) \<and> has_id_eq (JNum cid) c \<and>
      i = length pre \<and>
      (\<forall>c'. put_course data i c' = with_cours kvs (pre @ c' # post))"
proof -
  from find_course_SomeD[OF assms(2)] assms(1) obtain kvs pre post where
    d: "data = JObj kvs"
      "load_data st = Inr (JObj kvs)" "map_of kvs ''cours'' = Some (JArr (pre @ c # post))"
      "i = length pre" "\<forall>x\<in>set pre. has_id x \<and> \<not> has_id_eq (JNum cid) x"
      "has_id_eq (JNum cid) c"
    by blast
  then have "\<forall>c'. put_course data i c' = with_cours kvs (pre @ c' # post)"
    by (simp only: put_course_at) simp
  with d show ?thesis by blast
qed

lemma replaced_frame:
  assumes "load_data st = Inr data"
    and "find_course_by_id data cid = Inr (Some (i, c))"
    and "st' = Parsed (put_course data i c')"
  shows "\<exists>kvs pre c post c'.
      load_data st = Inr (JObj kvs) \<and> map_of kvs ''cours'' = Some (JArr (pre @ c # post)) \<and>
      (\<forall>x\<in>set pre. has_id x \<and> \<not> has_id_eq (JNum cid) x) \<and> has_id_eq (JNum cid) c \<and>
      st' = Parsed (with_cours kvs (pre @ c' # post))"
  using found_course_frame[OF assms(1,2)] assms(3) by metis

lemma removed_frame:
  assumes "courses_course_id_delete cid st = (Inr (b, 200), st')"
  shows "\<exists>kvs pre c post.
      load_data st = Inr (JObj kvs) \<and> map_of kvs ''cours'' = Some (JArr (pre @ c # post)) \<and>
      (\<forall>x\<in>set pre. has_id x \<and> \<not> has_id_eq (JNum cid) x) \<and> has_id_eq (JNum cid) c \<and>
      st' = Parsed (with_cours kvs (pre @ post))"
proof -
  from course_delete_200[OF assms] obtain data i c cours cours' where
    ld: "load_data st = Inr data"
    and f: "find_course_by_id data cid = Inr (Some (i, c))"
    and g: "getitem data ''cours'' = Inr cours"
    and r: "py_remove cours i c = Inr cours'"
    and s: "st' = Parsed (put_cours data cours')"
    by blast
  from found_course_frame[OF ld f] obtain kvs pre post where
    dd: "data = JObj kvs"
    and d: "load_data st = Inr (JObj kvs)" "map_of kvs ''cours'' = Some (JArr (pre @ c # post))"
      "\<forall>x\<in>set pre. has_id x \<and> \<not> has_id_eq (JNum cid) x" "has_id_eq (JNum cid) c"
      "i = length pre"
    by blast
  from g d dd have "cours = JArr (pre @ c # post)" by simp
  with r d py_remove_found[OF d(3,4), of post] have "cours' = JArr (pre @ post)" by simp
  with s d dd show ?thesis by auto
qed

section \<open>The storage gateway\<close>

text \<open>
  Claim C7. Loading returns the default document, with an empty \<^verbatim>\<open>cours\<close>, when the
  file does not exist and when the parser rejects its content with \<^verbatim>\<open>JSONDecodeError\<close>.
  It is not total under every failure of the store: on a file whose bytes are not UTF-8
  reading raises \<^verbatim>\<open>UnicodeDecodeError\<close>, which the one \<^verbatim>\<open>except\<close> clause does not catch,
  so \<^verbatim>\<open>load_data\<close> raises and so does the handler that called it; the same holds for an
  integer literal past the conversion limit and for nesting past the recursion limit.
\<close>

theorem load_data_undecodable:
  "load_data Missing = Inr (JObj [(''cours'', JArr [])]) \<and>
   load_data Corrupt = Inr (JObj [(''cours'', JArr [])]) \<and>
   load_data (Present Undecodable) = Inl UnicodeDecodeError \<and>
   load_data (Present HugeInteger) = Inl ValueError \<and>
   load_data (Present TooDeep) = Inl RecursionError \<and>
   courses_get (Present Undecodable) = (Inl UnicodeDecodeError, Present Undecodable)"
  by (simp add: default_data_def courses_get_def)

section \<open>The course repository\<close>







section \<open>The session repository\<close>

text \<open>
  Claim C8. Listing the sessions of a course answers 404 when no course has the
  \<^verbatim>\<open>id\<close>. Otherwise it answers 200 with the sessions of the first matching course:
  the \<^verbatim>\<open>seances\<close> of its modules, concatenated in the order of the modules and, within
  a module, in the order of the sessions; a course with no modules yields the empty list.
\<close>

theorem courses_course_id_sessions_get_concat:
  "(load_data st = Inr (JObj kvs) \<and> map_of kvs ''cours'' = Some (JArr cs) \<and>
    (\<forall>x\<in>set cs. has_id x \<and> \<not> has_id_eq (JNum course_id) x) \<longrightarrow>
    courses_course_id_sessions_get course_id st = (Inr (Msg COURSE_NOT_FOUND, 404), st)) \<and>
   (load_data st2 = Inr (JObj kvs2) \<and> map_of kvs2 ''cours'' = Some (JArr (pre @ c # post)) \<and>
    (\<forall>x\<in>set pre. has_id x \<and> \<not> has_id_eq (JNum course_id2) x) \<and>
    has_id_eq (JNum course_id2) c \<and> is_course c \<longrightarrow>
    courses_course_id_sessions_get course_id2 st2 =
      (Inr (Field ''seances'' (JArr (concat (map seances_of (modules_of c)))), 200), st2)) \<and>
   (load_data st3 = Inr (JObj kvs3) \<and> map_of kvs3 ''cours'' = Some (JArr (pre3 @ c3 # post3)) \<and>
    (\<forall>x\<in>set pre3. has_id x \<and> \<not> has_id_eq (JNum course_id3) x) \<and>
    has_id_eq (JNum course_id3) c3 \<and> is_course c3 \<and> modules_of c3 = [] \<longrightarrow>
    courses_course_id_sessions_get course_id3 st3 = (Inr (Field ''seances'' (JArr []), 200), st3))"
proof -
  have found: "courses_course_id_sessions_get n s =
      (Inr (Field ''seances'' (JArr (concat (map seances_of (modules_of c)))), 200), s)"
    if a: "load_data s = Inr (JObj k) \<and> map_of k ''cours'' = Some (JArr (p @ c # q)) \<and>
      (\<forall>x\<in>set p. has_id x \<and> \<not> has_id_eq (JNum n) x) \<and> has_id_eq (JNum n) c \<and> is_course c"
    for n s k p c q
  proof -
    from a have f: "find_course_by_id (JObj k) n = Inr (Some (length p, c))"
      by (simp add: find_course_found)
    from a have t: "truthy c" using has_id_eq_imp_has_id has_id_truthy by blast
    from a course_modules[of c] have m:
      "(case get_default c ''modules'' (JArr []) of Inl e \<Rightarrow> Inl e | Inr v \<Rightarrow> iter v) = Inr (modules_of c)"
      and e: "extend_seances (modules_of c) = Inr (concat (map seances_of (modules_of c)))"
      by (simp_all add: extend_seances_concat)
    show ?thesis
      using a f t m e
      by (auto simp: courses_course_id_sessions_get_def split: sum.splits)
  qed
  show ?thesis
  proof (intro conjI impI)
    assume "load_data st = Inr (JObj kvs) \<and> map_of kvs ''cours'' = Some (JArr cs) \<and>
      (\<forall>x\<in>set cs. has_id x \<and> \<not> has_id_eq (JNum course_id) x)"
    then show "courses_course_id_sessions_get course_id st = (Inr (Msg COURSE_NOT_FOUND, 404), st)"
      by (simp add: courses_course_id_sessions_get_def find_course_none)
  next
    assume "load_data st2 = Inr (JObj kvs2) \<and> map_of kvs2 ''cours'' = Some (JArr (pre @ c # post)) \<and>
      (\<forall>x\<in>set pre. has_id x \<and> \<not> has_id_eq (JNum course_id2) x) \<and>
      has_id_eq (JNum course_id2) c \<and> is_course c"
    then show "courses_course_id_sessions_get course_id2 st2 =
        (Inr (Field ''seances'' (JArr (concat (map seances_of (modules_of c)))), 200), st2)"
      by (rule found)
  next
    assume a: "load_data st3 = Inr (JObj kvs3) \<and> map_of kvs3 ''cours'' = Some (JArr (pre3 @ c3 # post3)) \<and>
      (\<forall>x\<in>set pre3. has_id x \<and> \<not> has_id_eq (JNum course_id3) x) \<and>
      has_id_eq (JNum course_id3) c3 \<and> is_course c3 \<and> modules_of c3 = []"
    then have "courses_course_id_sessions_get course_id3 st3 =
        (Inr (Field ''seances'' (JArr (concat (map seances_of (modules_of c3)))), 200), st3)"
      by (intro found[where k = kvs3 and p = pre3 and q = post3]) simp
    with a show "courses_course_id_sessions_get course_id3 st3 = (Inr (Field ''seances'' (JArr []), 200), st3)"
      by simp
  qed
qed

theorem courses_course_id_sessions_get_concat_witness:
  "courses_course_id_sessions_get 7 (Parsed example_data) =
     (Inr (Msg COURSE_NOT_FOUND, 404), Parsed example_data) \<and>
   courses_course_id_sessions_get 3 (Parsed example_data) =
     (Inr (Field ''seances''
            (JArr [JObj [(''id'', JNum 10)], JObj [(''id'', JNum 20)],
                   JObj [(''id'', JNum 30), (''titre'', JStr ''T'')]]), 200),
      Parsed example_data) \<and>
   courses_course_id_sessions_get 1 (Parsed example_data) =
     (Inr (Field ''seances'' (JArr []), 200), Parsed example_data)"
  using courses_course_id_sessions_get_concat
    [where st = "Parsed example_data" and kvs = "[(''cours'', JArr [course_a, course_b, course_c])]"
       and cs = "[course_a, course_b, course_c]" and course_id = 7
       and ?st2.0 = "Parsed example_data" and ?kvs2.0 = "[(''cours'', JArr [course_a, course_b, course_c])]"
       and pre = "[course_a, course_b]" and c = course_c and post = "[]" and ?course_id2.0 = 3
       and ?st3.0 = "Parsed example_data" and ?kvs3.0 = "[(''cours'', JArr [course_a, course_b, course_c])]"
       and ?pre3.0 = "[]" and ?c3.0 = course_a and ?post3.0 = "[course_b, course_c]" and ?course_id3.0 = 1]
  by (simp add: example_defs model_defs)



text \<open>
  Claim C2. For a course of the document whose modules and sessions have the shape of
  the data model, and an input with an \<^verbatim>\<open>id\<close>, creating a session answers 400 exactly
  when some session of some module of the course has an \<^verbatim>\<open>id\<close> equal to the input's.
  Whenever the answer is 400 it is the conflict message and the store is the one the
  handler started from: nothing was mutated or saved.
\<close>

theorem courses_course_id_sessions_post_conflict_iff:
  assumes "load_data st = Inr (JObj kvs)"
    and "map_of kvs ''cours'' = Some (JArr (pre @ c # post))"
    and "\<forall>x\<in>set pre. has_id x \<and> \<not> has_id_eq (JNum course_id) x"
    and "has_id_eq (JNum course_id) c"
    and "is_course c"
    and "\<forall>m\<in>set (modules_of c). \<forall>s\<in>set (seances_of m). has_id s"
    and "map_of session_data ''id'' = Some k"
  shows "((\<exists>b. fst (courses_course_id_sessions_post course_id session_data st) = Inr (b, 400)) \<longleftrightarrow>
          (\<exists>m\<in>set (modules_of c). \<exists>s\<in>set (seances_of m). has_id_eq k s)) \<and>
         (\<forall>b st'. courses_course_id_sessions_post course_id session_data st = (Inr (b, 400), st') \<longrightarrow>
            b = Msg SESSION_ALREADY_EXISTS \<and> st' = st)"
proof (intro conjI allI impI)
  from assms have f: "find_course_by_id (JObj kvs) course_id = Inr (Some (length pre, c))"
    by (simp add: find_course_found)
  from assms have t: "truthy c" using has_id_eq_imp_has_id has_id_truthy by blast
  from assms(4) obtain ckvs where c: "c = JObj ckvs"
    using has_id_eq_imp_has_id has_id_obj by blast
  show "(\<exists>b. fst (courses_course_id_sessions_post course_id session_data st) = Inr (b, 400)) \<longleftrightarrow>
          (\<exists>m\<in>set (modules_of c). \<exists>s\<in>set (seances_of m). has_id_eq k s)"
  proof (cases "\<exists>m\<in>set (modules_of c). \<exists>s\<in>set (seances_of m). has_id_eq k s")
    case True
    from find_session_some[OF assms(5,6) this] obtain i j s where
      s: "find_session_by_id c k = Inr (Some (i, j, s))" "has_id_eq k s"
      by blast
    then have ts: "truthy s" using has_id_eq_imp_has_id has_id_truthy by blast
    from True have "modules_of c \<noteq> []" by auto
    then have "\<exists>ms. map_of ckvs ''modules'' = Some (JArr ms) \<and> ms \<noteq> []"
      by (auto simp: c modules_of_def split: option.splits json.splits)
    then obtain ms where ms: "map_of ckvs ''modules'' = Some (JArr ms)" "ms \<noteq> []"
      by blast
    from any_find_session_some[OF s(1) ts assms(7), of ms] ms
    have "any_find_session c session_data ms = Inr True" by simp
    with True f t ms c assms(1) show ?thesis
      by (simp add: courses_course_id_sessions_post_def)
  next
    case False
    with assms(5,6) have n: "find_session_by_id c k = Inr None"
      by (intro find_session_none) auto
    have "\<And>ms. any_find_session c session_data ms = Inr False"
      using any_find_session_none[OF n assms(7)] .
    with False f t assms(1) show ?thesis
      by (auto simp: courses_course_id_sessions_post_def split: sum.splits)
  qed
next
  fix b st'
  assume "courses_course_id_sessions_post course_id session_data st = (Inr (b, 400), st')"
  then show "b = Msg SESSION_ALREADY_EXISTS" "st' = st"
    using sessions_post_400_unchanged by blast+
qed

theorem courses_course_id_sessions_post_conflict_iff_witness:
  "courses_course_id_sessions_post 3 [(''id'', JNum 20)] (Parsed example_data) =
     (Inr (Msg SESSION_ALREADY_EXISTS, 400), Parsed example_data) \<and>
   \<not> (\<exists>b. fst (courses_course_id_sessions_post 3 [(''id'', JNum 99)] (Parsed example_data)) =
            Inr (b, 400))"
proof -
  have h: "load_data (Parsed example_data) =
      Inr (JObj [(''cours'', JArr [course_a, course_b, course_c])])"
    "map_of [(''cours'', JArr [course_a, course_b, course_c])] ''cours'' =
       Some (JArr ([course_a, course_b] @ course_c # []))"
    "\<forall>x\<in>set [course_a, course_b]. has_id x \<and> \<not> has_id_eq (JNum 3) x"
    "has_id_eq (JNum 3) course_c"
    "is_course course_c"
    "\<forall>m\<in>set (modules_of course_c). \<forall>s\<in>set (seances_of m). has_id s"
    by (simp_all add: example_defs model_defs)
  have e: "\<exists>m\<in>set (modules_of course_c). \<exists>s\<in>set (seances_of m). has_id_eq (JNum 20) s"
    "\<not> (\<exists>m\<in>set (modules_of course_c). \<exists>s\<in>set (seances_of m). has_id_eq (JNum 99) s)"
    by (auto simp: example_defs model_defs)
  have k: "map_of [(''id'', JNum 20)] ''id'' = Some (JNum 20)"
    "map_of [(''id'', JNum 99)] ''id'' = Some (JNum 99)"
    by simp_all
  note A = courses_course_id_sessions_post_conflict_iff[OF h k(1)]
  note B = courses_course_id_sessions_post_conflict_iff[OF h k(2)]
  from A e(1) obtain b where
    "fst (courses_course_id_sessions_post 3 [(''id'', JNum 20)] (Parsed example_data)) = Inr (b, 400)"
    by blast
  then have "courses_course_id_sessions_post 3 [(''id'', JNum 20)] (Parsed example_data) =
      (Inr (b, 400), snd (courses_course_id_sessions_post 3 [(''id'', JNum 20)] (Parsed example_data)))"
    by (metis prod.collapse)
  with A have "courses_course_id_sessions_post 3 [(''id'', JNum 20)] (Parsed example_data) =
     (Inr (Msg SESSION_ALREADY_EXISTS, 400), Parsed example_data)"
    by metis
  moreover from B e(2) have
    "\<not> (\<exists>b. fst (courses_course_id_sessions_post 3 [(''id'', JNum 99)] (Parsed example_data)) =
            Inr (b, 400))"
    by blast
  ultimately show ?thesis by blast
qed

text \<open>
  Claim C4. Whenever creating a session answers 201, the course is the first one with
  the \<^verbatim>\<open>id\<close> and it has a \<^verbatim>\<open>modules\<close> field. If that field is empty, the course gets
  exactly one module, with the fixed \<^verbatim>\<open>id\<close> and title, holding the new session alone;
  otherwise the session is appended to the \<^verbatim>\<open>seances\<close> of the first module and the
  other modules stay as they were, so no module is added. After two creations in a row
  that both answer 201, the first module the first creation left holds both sessions,
  the second after the first, and the modules behind it are unchanged.
\<close>

theorem courses_course_id_sessions_post_placement:
  "(courses_course_id_sessions_post course_id session_data st = (Inr (b, 201), st') \<longrightarrow>
    (\<exists>kvs pre c post mods.
      load_data st = Inr (JObj kvs) \<and> map_of kvs ''cours'' = Some (JArr (pre @ JObj c # post)) \<and>
      (\<forall>x\<in>set pre. has_id x \<and> \<not> has_id_eq (JNum course_id) x) \<and>
      has_id_eq (JNum course_id) (JObj c) \<and> map_of c ''modules'' = Some mods \<and>
      ((iter mods = Inr [] \<and>
        st' = Parsed (with_cours kvs (pre @
                with_modules c [JObj [(''id'', JStr ''module_1''), (''titre'', JStr ''Nouveau module''),
                                      (''seances'', JArr [JObj session_data])]] # post))) \<or>
       (\<exists>m rest ss. mods = JArr (JObj m # rest) \<and> map_of m ''seances'' = Some (JArr ss) \<and>
          st' = Parsed (with_cours kvs (pre @
                  with_modules c (with_seances m (ss @ [JObj session_data]) # rest) # post)))))) \<and>
   (courses_course_id_sessions_post course_id2 session_data1 st0 = (Inr (b1, 201), st1) \<and>
    courses_course_id_sessions_post course_id2 session_data2 st1 = (Inr (b2, 201), st2) \<longrightarrow>
    (\<exists>kvs pre c post m rest ss.
      load_data st1 = Inr (JObj kvs) \<and> map_of kvs ''cours'' = Some (JArr (pre @ JObj c # post)) \<and>
      (\<forall>x\<in>set pre. has_id x \<and> \<not> has_id_eq (JNum course_id2) x) \<and>
      has_id_eq (JNum course_id2) (JObj c) \<and>
      map_of c ''modules'' = Some (JArr (JObj m # rest)) \<and>
      map_of m ''seances'' = Some (JArr (ss @ [JObj session_data1])) \<and>
      st2 = Parsed (with_cours kvs (pre @
              with_modules c (with_seances m (ss @ [JObj session_data1, JObj session_data2]) # rest)
              # post))))"
  using sessions_post_201_shape sessions_post_201_twice by blast

theorem courses_course_id_sessions_post_placement_witness:
  "courses_course_id_sessions_post 2 [(''id'', JNum 5)] (Parsed example_data) =
     (Inr (MsgWith SESSION_CREATED_SUCCESS ''seance'' (JObj [(''id'', JNum 5)]), 201),
      Parsed (JObj [(''cours'', JArr [course_a, course_b_once, course_c])])) \<and>
   courses_course_id_sessions_post 2 [(''id'', JNum 6)]
       (Parsed (JObj [(''cours'', JArr [course_a, course_b_once, course_c])])) =
     (Inr (MsgWith SESSION_CREATED_SUCCESS ''seance'' (JObj [(''id'', JNum 6)]), 201),
      Parsed (JObj [(''cours'', JArr [course_a, course_b_twice, course_c])])) \<and>
   (\<exists>kvs pre c post mods.
      load_data (Parsed example_data) = Inr (JObj kvs) \<and>
      map_of kvs ''cours'' = Some (JArr (pre @ JObj c # post)) \<and>
      has_id_eq (JNum 2) (JObj c) \<and> map_of c ''modules'' = Some mods \<and>
      ((iter mods = Inr [] \<and>
        Parsed (JObj [(''cours'', JArr [course_a, course_b_once, course_c])]) =
          Parsed (with_cours kvs (pre @
                with_modules c [JObj [(''id'', JStr ''module_1''), (''titre'', JStr ''Nouveau module''),
                                      (''seances'', JArr [JObj [(''id'', JNum 5)]])]] # post))) \<or>
       (\<exists>m rest ss. mods = JArr (JObj m # rest) \<and> map_of m ''seances'' = Some (JArr ss) \<and>
          Parsed (JObj [(''cours'', JArr [course_a, course_b_once, course_c])]) =
            Parsed (with_cours kvs (pre @
                  with_modules c (with_seances m (ss @ [JObj [(''id'', JNum 5)]]) # rest) # post))))) \<and>
   (\<exists>kvs pre c post m rest ss.
      load_data (Parsed (JObj [(''cours'', JArr [course_a, course_b_once, course_c])])) = Inr (JObj kvs) \<and>
      map_of kvs ''cours'' = Some (JArr (pre @ JObj c # post)) \<and>
      has_id_eq (JNum 2) (JObj c) \<and>
      map_of c ''modules'' = Some (JArr (JObj m # rest)) \<and>
      map_of m ''seances'' = Some (JArr (ss @ [JObj [(''id'', JNum 5)]])) \<and>
      Parsed (JObj [(''cours'', JArr [course_a, course_b_twice, course_c])]) =
        Parsed (with_cours kvs (pre @
              with_modules c (with_seances m (ss @ [JObj [(''id'', JNum 5)], JObj [(''id'', JNum 6)]]) # rest)
              # post)))"
proof -
  have h1: "courses_course_id_sessions_post 2 [(''id'', JNum 5)] (Parsed example_data) =
     (Inr (MsgWith SESSION_CREATED_SUCCESS ''seance'' (JObj [(''id'', JNum 5)]), 201),
      Parsed (JObj [(''cours'', JArr [course_a, course_b_once, course_c])]))"
    by (simp add: courses_course_id_sessions_post_def find_course_by_id_def place_session_def
        new_module_def save_data_def example_defs course_b_once_def)
  have h2: "courses_course_id_sessions_post 2 [(''id'', JNum 6)]
       (Parsed (JObj [(''cours'', JArr [course_a, course_b_once, course_c])])) =
     (Inr (MsgWith SESSION_CREATED_SUCCESS ''seance'' (JObj [(''id'', JNum 6)]), 201),
      Parsed (JObj [(''cours'', JArr [course_a, course_b_twice, course_c])]))"
    by (simp add: courses_course_id_sessions_post_def find_course_by_id_def find_session_by_id_def
        place_session_def save_data_def example_defs course_b_once_def course_b_twice_def)
  note t = courses_course_id_sessions_post_placement
  from t[THEN conjunct1, rule_format, OF h1] t[THEN conjunct2, rule_format, OF conjI[OF h1 h2]] h1 h2
  show ?thesis by blast
qed

section \<open>What a mutation leaves alone\<close>

text \<open>
  Claim C10. Whenever updating a course, deleting a course, creating a session or
  updating a session succeeds, the saved document is the loaded one with the \<^verbatim>\<open>cours\<close>
  list changed at one position only, that of the first course with the operation's
  course \<^verbatim>\<open>id\<close>: the courses before it and after it are the same values in the same
  order, and that one course is replaced, or removed by a deletion.
\<close>

theorem mutations_frame:
  "(courses_course_id_put course_id patch st = (Inr (b, 200), st') \<longrightarrow>
    (\<exists>kvs pre c post c'.
      load_data st = Inr (JObj kvs) \<and> map_of kvs ''cours'' = Some (JArr (pre @ c # post)) \<and>
      (\<forall>x\<in>set pre. has_id x \<and> \<not> has_id_eq (JNum course_id) x) \<and>
      has_id_eq (JNum course_id) c \<and>
      st' = Parsed (with_cours kvs (pre @ c' # post)))) \<and>
   (courses_course_id_delete course_id2 st2 = (Inr (b2, 200), st2') \<longrightarrow>
    (\<exists>kvs pre c post.
      load_data st2 = Inr (JObj kvs) \<and> map_of kvs ''cours'' = Some (JArr (pre @ c # post)) \<and>
      (\<forall>x\<in>set pre. has_id x \<and> \<not> has_id_eq (JNum course_id2) x) \<and>
      has_id_eq (JNum course_id2) c \<and>
      st2' = Parsed (with_cours kvs (pre @ post)))) \<and>
   (courses_course_id_sessions_post course_id3 session_data3 st3 = (Inr (b3, 201), st3') \<longrightarrow>
    (\<exists>kvs pre c post c'.
      load_data st3 = Inr (JObj kvs) \<and> map_of kvs ''cours'' = Some (JArr (pre @ c # post)) \<and>
      (\<forall>x\<in>set pre. has_id x \<and> \<not> has_id_eq (JNum course_id3) x) \<and>
      has_id_eq (JNum course_id3) c \<and>
      st3' = Parsed (with_cours kvs (pre @ c' # post)))) \<and>
   (courses_course_id_sessions_session_id_put course_id4 session_id4 patch4 st4 =
      (Inr (b4, 200), st4') \<longrightarrow>
    (\<exists>kvs pre c post c'.
      load_data st4 = Inr (JObj kvs) \<and> map_of kvs ''cours'' = Some (JArr (pre @ c # post)) \<and>
      (\<forall>x\<in>set pre. has_id x \<and> \<not> has_id_eq (JNum course_id4) x) \<and>
      has_id_eq (JNum course_id4) c \<and>
      st4' = Parsed (with_cours kvs (pre @ c' # post))))"
proof (intro conjI impI)
  assume "courses_course_id_put course_id patch st = (Inr (b, 200), st')"
  from course_put_200[OF this] show "\<exists>kvs pre c post c'.
      load_data st = Inr (JObj kvs) \<and> map_of kvs ''cours'' = Some (JArr (pre @ c # post)) \<and>
      (\<forall>x\<in>set pre. has_id x \<and> \<not> has_id_eq (JNum course_id) x) \<and>
      has_id_eq (JNum course_id) c \<and>
      st' = Parsed (with_cours kvs (pre @ c' # post))"
    using replaced_frame by blast
next
  assume "courses_course_id_delete course_id2 st2 = (Inr (b2, 200), st2')"
  then show "\<exists>kvs pre c post.
      load_data st2 = Inr (JObj kvs) \<and> map_of kvs ''cours'' = Some (JArr (pre @ c # post)) \<and>
      (\<forall>x\<in>set pre. has_id x \<and> \<not> has_id_eq (JNum course_id2) x) \<and>
      has_id_eq (JNum course_id2) c \<and>
      st2' = Parsed (with_cours kvs (pre @ post))"
    by (rule removed_frame)
next
  assume "courses_course_id_sessions_post course_id3 session_data3 st3 = (Inr (b3, 201), st3')"
  from sessions_post_201[OF this] show "\<exists>kvs pre c post c'.
      load_data st3 = Inr (JObj kvs) \<and> map_of kvs ''cours'' = Some (JArr (pre @ c # post)) \<and>
      (\<forall>x\<in>set pre. has_id x \<and> \<not> has_id_eq (JNum course_id3) x) \<and>
      has_id_eq (JNum course_id3) c \<and>
      st3' = Parsed (with_cours kvs (pre @ c' # post))"
    using replaced_frame by blast
next
  assume "courses_course_id_sessions_session_id_put course_id4 session_id4 patch4 st4 =
      (Inr (b4, 200), st4')"
  from session_put_200[OF this] show "\<exists>kvs pre c post c'.
      load_data st4 = Inr (JObj kvs) \<and> map_of kvs ''cours'' = Some (JArr (pre @ c # post)) \<and>
      (\<forall>x\<in>set pre. has_id x \<and> \<not> has_id_eq (JNum course_id4) x) \<and>
      has_id_eq (JNum course_id4) c \<and>
      st4' = Parsed (with_cours kvs (pre @ c' # post))"
    using replaced_frame by blast
qed

theorem mutations_frame_witness:
  "courses_course_id_put 2 [(''title'', JStr ''B'')] (Parsed example_data) =
     (Inr (MsgWith COURSE_UPDATED ''cours'' course_b_titled, 200),
      Parsed (JObj [(''cours'', JArr [course_a, course_b_titled, course_c])])) \<and>
   (\<exists>kvs pre c post c'.
      load_data (Parsed example_data) = Inr (JObj kvs) \<and>
      map_of kvs ''cours'' = Some (JArr (pre @ c # post)) \<and> has_id_eq (JNum 2) c \<and>
      Parsed (JObj [(''cours'', JArr [course_a, course_b_titled, course_c])]) =
        Parsed (with_cours kvs (pre @ c' # post))) \<and>
   courses_course_id_delete 2 (Parsed example_data) =
     (Inr (Msg COURSE_DELETED, 200), Parsed (JObj [(''cours'', JArr [course_a, course_c])])) \<and>
   (\<exists>kvs pre c post.
      load_data (Parsed example_data) = Inr (JObj kvs) \<and>
      map_of kvs ''cours'' = Some (JArr (pre @ c # post)) \<and> has_id_eq (JNum 2) c \<and>
      Parsed (JObj [(''cours'', JArr [course_a, course_c])]) =
        Parsed (with_cours kvs (pre @ post))) \<and>
   courses_course_id_sessions_post 2 [(''id'', JNum 5)] (Parsed example_data) =
     (Inr (MsgWith SESSION_CREATED_SUCCESS ''seance'' (JObj [(''id'', JNum 5)]), 201),
      Parsed (JObj [(''cours'', JArr [course_a, course_b_once, course_c])])) \<and>
   (\<exists>kvs pre c post c'.
      load_data (Parsed example_data) = Inr (JObj kvs) \<and>
      map_of kvs ''cours'' = Some (JArr (pre @ c # post)) \<and> has_id_eq (JNum 2) c \<and>
      Parsed (JObj [(''cours'', JArr [course_a, course_b_once, course_c])]) =
        Parsed (with_cours kvs (pre @ c' # post))) \<and>
   courses_course_id_sessions_session_id_put 3 30 [(''titre'', JStr ''U'')] (Parsed example_data) =
     (Inr (MsgWith SESSION_UPDATED_SUCCESS ''seance''
            (JObj [(''id'', JNum 30), (''titre'', JStr ''U'')]), 200),
      Parsed (JObj [(''cours'', JArr [course_a, course_b, course_c_patched])])) \<and>
   (\<exists>kvs pre c post c'.
      load_data (Parsed example_data) = Inr (JObj kvs) \<and>
      map_of kvs ''cours'' = Some (JArr (pre @ c # post)) \<and> has_id_eq (JNum 3) c \<and>
      Parsed (JObj [(''cours'', JArr [course_a, course_b, course_c_patched])]) =
        Parsed (with_cours kvs (pre @ c' # post)))"
proof -
  have h1: "courses_course_id_put 2 [(''title'', JStr ''B'')] (Parsed example_data) =
     (Inr (MsgWith COURSE_UPDATED ''cours'' course_b_titled, 200),
      Parsed (JObj [(''cours'', JArr [course_a, course_b_titled, course_c])]))"
    by (simp add: courses_course_id_put_def find_course_by_id_def dict_merge_def save_data_def
        example_defs course_b_titled_def)
  have h2: "courses_course_id_delete 2 (Parsed example_data) =
     (Inr (Msg COURSE_DELETED, 200), Parsed (JObj [(''cours'', JArr [course_a, course_c])]))"
    by (simp add: courses_course_id_delete_def find_course_by_id_def save_data_def example_defs)
  have h3: "courses_course_id_sessions_post 2 [(''id'', JNum 5)] (Parsed example_data) =
     (Inr (MsgWith SESSION_CREATED_SUCCESS ''seance'' (JObj [(''id'', JNum 5)]), 201),
      Parsed (JObj [(''cours'', JArr [course_a, course_b_once, course_c])]))"
    by (simp add: courses_course_id_sessions_post_def find_course_by_id_def place_session_def
        new_module_def save_data_def example_defs course_b_once_def)
  have h4: "courses_course_id_sessions_session_id_put 3 30 [(''titre'', JStr ''U'')] (Parsed example_data) =
     (Inr (MsgWith SESSION_UPDATED_SUCCESS ''seance''
            (JObj [(''id'', JNum 30), (''titre'', JStr ''U'')]), 200),
      Parsed (JObj [(''cours'', JArr [course_a, course_b, course_c_patched])]))"
    by (simp add: courses_course_id_sessions_session_id_put_def find_course_by_id_def
        find_session_by_id_def dict_merge_def save_data_def example_defs course_c_patched_def)
  note t = mutations_frame
  note c1 = t[THEN conjunct1, rule_format, OF h1]
  note c2 = t[THEN conjunct2, THEN conjunct1, rule_format, OF h2]
  note c3 = t[THEN conjunct2, THEN conjunct2, THEN conjunct1, rule_format, OF h3]
  note c4 = t[THEN conjunct2, THEN conjunct2, THEN conjunct2, rule_format, OF h4]
  have 1: "\<exists>kvs pre c post c'.
      load_data (Parsed example_data) = Inr (JObj kvs) \<and>
      map_of kvs ''cours'' = Some (JArr (pre @ c # post)) \<and> has_id_eq (JNum 2) c \<and>
      Parsed (JObj [(''cours'', JArr [course_a, course_b_titled, course_c])]) =
        Parsed (with_cours kvs (pre @ c' # post))"
    using c1 by blast
  have 2: "\<exists>kvs pre c post.
      load_data (Parsed example_data) = Inr (JObj kvs) \<and>
      map_of kvs ''cours'' = Some (JArr (pre @ c # post)) \<and> has_id_eq (JNum 2) c \<and>
      Parsed (JObj [(''cours'', JArr [course_a, course_c])]) =
        Parsed (with_cours kvs (pre @ post))"
    using c2 by blast
  have 3: "\<exists>kvs pre c post c'.
      load_data (Parsed example_data) = Inr (JObj kvs) \<and>
      map_of kvs ''cours'' = Some (JArr (pre @ c # post)) \<and> has_id_eq (JNum 2) c \<and>
      Parsed (JObj [(''cours'', JArr [course_a, course_b_once, course_c])]) =
        Parsed (with_cours kvs (pre @ c' # post))"
    using c3 by blast
  have 4: "\<exists>kvs pre c post c'.
      load_data (Parsed example_data) = Inr (JObj kvs) \<and>
      map_of kvs ''cours'' = Some (JArr (pre @ c # post)) \<and> has_id_eq (JNum 3) c \<and>
      Parsed (JObj [(''cours'', JArr [course_a, course_b, course_c_patched])]) =
        Parsed (with_cours kvs (pre @ c' # post))"
    using c4 by blast
  from h1 h2 h3 h4 1 2 3 4 show ?thesis by (intro conjI)
qed

section \<open>Absent containers\<close>

text \<open>
  Claim C1. Listing and updating sessions give the same answer for a course without
  \<^verbatim>\<open>modules\<close> as for one with an empty \<^verbatim>\<open>modules\<close>. Creating a session does not:
  when the course has no \<^verbatim>\<open>modules\<close> key, \<^verbatim>\<open>course['modules']\<close> in the conflict test
  raises \<^verbatim>\<open>KeyError\<close>, and when the first module has no \<^verbatim>\<open>seances\<close> key,
  \<^verbatim>\<open>course['modules'][0]['seances']\<close> raises \<^verbatim>\<open>KeyError\<close>, where the same request on
  the explicit empty containers answers 201.
\<close>

theorem sessions_post_absent_container:
  "courses_course_id_sessions_get 1 (Parsed absent_modules) =
     (Inr (Field ''seances'' (JArr []), 200), Parsed absent_modules) \<and>
   courses_course_id_sessions_get 1 (Parsed empty_modules) =
     (Inr (Field ''seances'' (JArr []), 200), Parsed empty_modules) \<and>
   courses_course_id_sessions_session_id_put 1 5 [(''titre'', JStr ''U'')] (Parsed absent_modules) =
     (Inr (Msg SESSION_NOT_FOUND, 404), Parsed absent_modules) \<and>
   courses_course_id_sessions_session_id_put 1 5 [(''titre'', JStr ''U'')] (Parsed empty_modules) =
     (Inr (Msg SESSION_NOT_FOUND, 404), Parsed empty_modules) \<and>
   courses_course_id_sessions_post 1 [(''id'', JNum 5)] (Parsed absent_modules) =
     (Inl KeyError, Parsed absent_modules) \<and>
   courses_course_id_sessions_post 1 [(''id'', JNum 5)] (Parsed empty_modules) =
     (Inr (MsgWith SESSION_CREATED_SUCCESS ''seance'' (JObj [(''id'', JNum 5)]), 201),
      Parsed (JObj [(''cours'', JArr [JObj [(''id'', JNum 1),
        (''modules'', JArr [JObj [(''id'', JStr ''module_1''), (''titre'', JStr ''Nouveau module''),
                                  (''seances'', JArr [JObj [(''id'', JNum 5)]])]])]])])) \<and>
   courses_course_id_sessions_post 1 [(''id'', JNum 5)] (Parsed absent_seances) =
     (Inl KeyError, Parsed absent_seances) \<and>
   courses_course_id_sessions_post 1 [(''id'', JNum 5)] (Parsed empty_seances) =
     (Inr (MsgWith SESSION_CREATED_SUCCESS ''seance'' (JObj [(''id'', JNum 5)]), 201),
      Parsed (JObj [(''cours'', JArr [JObj [(''id'', JNum 1),
        (''modules'', JArr [JObj [(''id'', JStr ''m''),
                                  (''seances'', JArr [JObj [(''id'', JNum 5)]])]])]])]))"
  by (simp add: courses_course_id_sessions_get_def courses_course_id_sessions_session_id_put_def
      courses_course_id_sessions_post_def find_course_by_id_def find_session_by_id_def
      place_session_def new_module_def save_data_def
      absent_modules_def empty_modules_def absent_seances_def empty_seances_def)

end
